theory Spec2Isabelle
  imports Complex_Main
begin

section \<open>Data model\<close>

text \<open>
  The plotting module \<^verbatim>\<open>core_rsz/plotting.py\<close> draws on matplotlib axes and reads
  clusters, sources, models and configuration dictionaries that are built elsewhere.
  Python floats are modelled by \<^typ>\<open>real\<close>: comparison of two finite floats is
  comparison of the numbers they denote, arithmetic is taken without rounding, and there
  is no NaN. Python exceptions are values of \<open>error\<close>; a function that can raise
  returns \<open>error + 'a\<close>.
\<close>

datatype error =
  KeyError string   \<comment> \<open>a dictionary subscript with a key that is not there\<close>
| ValueError        \<comment> \<open>\<^verbatim>\<open>min()\<close> or \<^verbatim>\<open>max()\<close> of an empty sequence\<close>

text \<open>
  Modelled from the spec: the classes of the absent module \<^verbatim>\<open>data\<close> and the
  source, cluster and model objects. A magnitude or a color is a value with an
  uncertainty; the redshift of a cluster may carry separate upper and lower errors.
\<close>

record data =
  data_value :: real
  data_error :: real


text \<open>
  Modelled from the spec: a source. \<open>mags\<close>, \<open>colors\<close> and \<open>RS_member\<close> are
  dictionaries keyed by band or color name; \<open>RS_member\<close> has no entry for a color
  whose red sequence membership has not been computed yet, and is the empty dictionary
  when no membership has been computed at all (the code catches KeyError for it: "if RS
  membership hasn't been created yet, the key wont exist").
\<close>

record source =
  ra :: real
  dec :: real
  mags :: "string \<rightharpoonup> data"
  colors :: "string \<rightharpoonup> data"
  near_center :: bool
  RS_member :: "string \<rightharpoonup> bool"

record cluster =
  name :: string
  sources_list :: "source list"

text \<open>
  Modelled from the spec: the configuration dictionary of one color combination, with
  its required keys \<^verbatim>\<open>color\<close>, \<^verbatim>\<open>red_band\<close>, \<^verbatim>\<open>blue_band\<close> and the 4-tuple
  \<^verbatim>\<open>plot_lims\<close> (subscripts 0 to 3).
\<close>

record cfg =
  color :: string
  red_band :: string
  blue_band :: string
  plot_lims :: "real \<times> real \<times> real \<times> real"

fun lim0 :: "real \<times> real \<times> real \<times> real \<Rightarrow> real" where "lim0 (a, b, c, d) = a"
fun lim1 :: "real \<times> real \<times> real \<times> real \<Rightarrow> real" where "lim1 (a, b, c, d) = b"
fun lim2 :: "real \<times> real \<times> real \<times> real \<Rightarrow> real" where "lim2 (a, b, c, d) = c"
fun lim3 :: "real \<times> real \<times> real \<times> real \<Rightarrow> real" where "lim3 (a, b, c, d) = d"

text \<open>
  Modelled from the spec: a red sequence model of one redshift, with the function from
  a magnitude to the predicted color and the characteristic point.
\<close>

record rs_model =
  rs_color :: "real \<Rightarrow> real"
  mag_point :: real
  color_point :: real

section \<open>The drawing surface\<close>

text \<open>
  A matplotlib axes object is the record of what has been drawn on it and of the
  settings the module touches. Each method the module calls is a function that returns
  the updated axes. A color argument is a named color or the color a scalar map gives
  to a number, kept symbolic: the palette is not part of any property here. The source
  changes the axes in place; when a call raises, the caller gets no result, and the
  model returns the error alone.
\<close>

record scalar_map =
  vmin :: real
  vmax :: real
  cmap :: string

datatype colour = Named string | To_rgba scalar_map real

record errorbar_call =
  eb_x :: real
  eb_y :: real
  eb_yerr :: "real option"
  eb_xerr :: "real option"
  eb_c :: colour
  eb_fmt :: string
  eb_elinewidth :: real
  eb_capsize :: real
  eb_markersize :: real

record plot_call =
  pl_xs :: "real list"
  pl_ys :: "real list"
  pl_color :: colour
  pl_linewidth :: real
  pl_zorder :: int

record scatter_call =
  sc_xs :: "real list"
  sc_ys :: "real list"
  sc_c :: colour
  sc_s :: "real option"
  sc_linewidth :: real
  sc_zorder :: "int option"
  sc_label :: "string option"

record text_call =
  tx_x :: real
  tx_y :: real
  tx_s :: string
  tx_ha :: string
  tx_va :: string
  tx_facecolor :: string
  tx_box_linewidth :: real

record legend_call =
  lg_loc :: nat
  lg_scatterpoints :: nat
  lg_frame_linewidth :: "real option"

record axes =
  errorbars :: "errorbar_call list"
  plots :: "plot_call list"
  scatters :: "scatter_call list"
  texts :: "text_call list"
  xlim :: "(real \<times> real) option"
  ylim :: "(real \<times> real) option"
  xlabel :: string
  ylabel :: string
  xlabel_position :: string
  ylabel_position :: string
  xticks_position :: string
  yticks_position :: string
  legend :: "legend_call option"
  x_useOffset :: bool
  y_useOffset :: bool
  x_inverted :: bool
  aspect :: "real option"
  adjustable :: string

definition new_axes :: axes where
  "new_axes = \<lparr>errorbars = [], plots = [], scatters = [], texts = [],
     xlim = None, ylim = None, xlabel = [], ylabel = [],
     xlabel_position = ''bottom'', ylabel_position = ''left'',
     xticks_position = ''both'', yticks_position = ''both'',
     legend = None, x_useOffset = True, y_useOffset = True, x_inverted = False,
     aspect = None, adjustable = ''box''\<rparr>"

definition errorbar :: "axes \<Rightarrow> errorbar_call \<Rightarrow> axes" where
  "errorbar ax e = ax\<lparr>errorbars := errorbars ax @ [e]\<rparr>"

definition plot :: "axes \<Rightarrow> plot_call \<Rightarrow> axes" where
  "plot ax p = ax\<lparr>plots := plots ax @ [p]\<rparr>"

definition scatter :: "axes \<Rightarrow> scatter_call \<Rightarrow> axes" where
  "scatter ax s = ax\<lparr>scatters := scatters ax @ [s]\<rparr>"

definition text_ax :: "axes \<Rightarrow> text_call \<Rightarrow> axes" where
  "text_ax ax t = ax\<lparr>texts := texts ax @ [t]\<rparr>"

definition set_xlim :: "axes \<Rightarrow> real \<Rightarrow> real \<Rightarrow> axes" where
  "set_xlim ax lo hi = ax\<lparr>xlim := Some (lo, hi)\<rparr>"

definition set_ylim :: "axes \<Rightarrow> real \<Rightarrow> real \<Rightarrow> axes" where
  "set_ylim ax lo hi = ax\<lparr>ylim := Some (lo, hi)\<rparr>"

definition set_xlabel :: "axes \<Rightarrow> string \<Rightarrow> axes" where
  "set_xlabel ax l = ax\<lparr>xlabel := l\<rparr>"

definition set_ylabel :: "axes \<Rightarrow> string \<Rightarrow> axes" where
  "set_ylabel ax l = ax\<lparr>ylabel := l\<rparr>"

text \<open>
  \<^verbatim>\<open>ax.twinx()\<close> gives a new axes over the same area that shares the x axis of
  \<open>ax\<close> and has a y axis of its own; \<^verbatim>\<open>ax.twiny()\<close> shares the y axis and has an x
  axis of its own. Neither draws anything, and the limits of an axis that is not shared
  are set apart from those of \<open>ax\<close>.
\<close>

definition twinx :: "axes \<Rightarrow> axes" where
  "twinx ax = new_axes\<lparr>xlim := xlim ax, yticks_position := ''right'',
     ylabel_position := ''right''\<rparr>"

definition twiny :: "axes \<Rightarrow> axes" where
  "twiny ax = new_axes\<lparr>ylim := ylim ax, xticks_position := ''top'',
     xlabel_position := ''top''\<rparr>"

section \<open>Strings\<close>

text \<open>
  \<^verbatim>\<open>s.replace(old, new)\<close> for a non-empty \<open>old\<close>: every occurrence of \<open>old\<close>,
  found from the left without overlap, is replaced.
\<close>

function replace :: "string \<Rightarrow> string \<Rightarrow> string \<Rightarrow> string" where
  "replace old new [] = []"
| "replace old new (c # cs) =
     (if old \<noteq> [] \<and> take (length old) (c # cs) = old
      then new @ replace old new (drop (length old) (c # cs))
      else c # replace old new cs)"
  by pat_completeness auto
termination
  by (relation "measure (\<lambda>(old, new, s). length s)") (auto simp: Suc_le_eq)

section \<open>The color-magnitude diagram\<close>

definition nice_red :: string where
  "nice_red = ''#D62728''"

text \<open>
  The comprehension that keeps the sources to plot. Python's \<^verbatim>\<open>and\<close> does not
  look at the color of a source that is not near the center; the subscript raises
  KeyError for a source near the center that does not carry the color.
\<close>

fun valid_sources :: "cfg \<Rightarrow> source list \<Rightarrow> error + source list" where
  "valid_sources c [] = Inr []"
| "valid_sources c (s # ss) =
     (if near_center s then
        (case colors s (color c) of
           None \<Rightarrow> Inl (KeyError (color c))
         | Some col \<Rightarrow>
             (case valid_sources c ss of
                Inl e \<Rightarrow> Inl e
              | Inr vs \<Rightarrow> Inr (if data_error col < 0.2 then s # vs else vs)))
      else valid_sources c ss)"

text \<open>
  The \<^verbatim>\<open>try\<close> block of the loop: red for a red sequence member, black for the
  others and, through \<^verbatim>\<open>except KeyError\<close>, for a source without the key.
\<close>

definition point_color :: "cfg \<Rightarrow> source \<Rightarrow> string" where
  "point_color c s =
     (case RS_member s (color c) of
        Some m \<Rightarrow> (if m then nice_red else ''k'')
      | None \<Rightarrow> ''k'')"

fun plot_points :: "cfg \<Rightarrow> axes \<Rightarrow> source list \<Rightarrow> error + axes" where
  "plot_points c ax [] = Inr ax"
| "plot_points c ax (s # ss) =
     (case mags s (red_band c) of
        None \<Rightarrow> Inl (KeyError (red_band c))
      | Some m \<Rightarrow>
          (case colors s (color c) of
             None \<Rightarrow> Inl (KeyError (color c))
           | Some source_color \<Rightarrow>
               plot_points c
                 (errorbar ax \<lparr>eb_x = data_value m, eb_y = data_value source_color,
                    eb_yerr = Some (data_error source_color), eb_xerr = None,
                    eb_c = Named (point_color c s), eb_fmt = ''.'',
                    eb_elinewidth = 0.35, eb_capsize = 0, eb_markersize = 5\<rparr>)
                 ss))"

definition cmd :: "cluster \<Rightarrow> axes \<Rightarrow> cfg \<Rightarrow> error + axes" where
  "cmd cl ax c =
     (case valid_sources c (sources_list cl) of
        Inl e \<Rightarrow> Inl e
      | Inr vs \<Rightarrow>
          (case plot_points c ax vs of
             Inl e \<Rightarrow> Inl e
           | Inr ax1 \<Rightarrow>
               (let ax2 = set_xlim ax1 (lim0 (plot_lims c)) (lim1 (plot_lims c));
                    ax3 = set_ylim ax2 (lim2 (plot_lims c)) (lim3 (plot_lims c));
                    ax4 = set_xlabel ax3 (replace ''sloan_'' [] (red_band c) @ ''  [AB]'');
                    ax5 = set_ylabel ax4 (replace ''sloan_'' [] (color c) @ ''  [AB]'')
                in Inr (text_ax ax5 \<lparr>tx_x = 0.03, tx_y = 0.97,
                     tx_s = replace ''_'' '' '' (name cl),
                     tx_ha = ''left'', tx_va = ''top'',
                     tx_facecolor = ''w'', tx_box_linewidth = 0\<rparr>))))"

section \<open>Vega labels\<close>

definition tick_bottom :: "axes \<Rightarrow> axes" where
  "tick_bottom ax = ax\<lparr>xticks_position := ''bottom''\<rparr>"

definition tick_top :: "axes \<Rightarrow> axes" where
  "tick_top ax = ax\<lparr>xticks_position := ''top''\<rparr>"

definition tick_left :: "axes \<Rightarrow> axes" where
  "tick_left ax = ax\<lparr>yticks_position := ''left''\<rparr>"

definition tick_right :: "axes \<Rightarrow> axes" where
  "tick_right ax = ax\<lparr>yticks_position := ''right''\<rparr>"

definition set_xlabel_position :: "axes \<Rightarrow> string \<Rightarrow> axes" where
  "set_xlabel_position ax p = ax\<lparr>xlabel_position := p\<rparr>"

definition set_ylabel_position :: "axes \<Rightarrow> string \<Rightarrow> axes" where
  "set_ylabel_position ax p = ax\<lparr>ylabel_position := p\<rparr>"

text \<open>
  The table \<^verbatim>\<open>config.ab_to_vega\<close> (Vega magnitude = AB magnitude + factor) lives in
  a module that is not part of the plotting code; it is the first argument here. The
  function returns the two new axes and changes the ticks of \<open>ax\<close>; the result is
  \<open>(ax, vega_color_ax, vega_mag_ax)\<close>. The subscripts are evaluated in the order of
  the source, so a missing blue band is reported before a missing red band.
\<close>

definition add_vega_labels ::
  "(string \<rightharpoonup> real) \<Rightarrow> axes \<Rightarrow> cfg \<Rightarrow> error + (axes \<times> axes \<times> axes)" where
  "add_vega_labels ab_to_vega ax c =
     (let ax1 = tick_left (tick_bottom ax) in
      case ab_to_vega (blue_band c) of
        None \<Rightarrow> Inl (KeyError (blue_band c))
      | Some blue \<Rightarrow>
          (case ab_to_vega (red_band c) of
             None \<Rightarrow> Inl (KeyError (red_band c))
           | Some red \<Rightarrow>
               (let x_min = lim0 (plot_lims c) + blue;
                    x_max = lim1 (plot_lims c) + red;
                    y_min = lim2 (plot_lims c) + (blue - red);
                    y_max = lim3 (plot_lims c) + (blue - red);
                    vega_color_ax = twinx ax1;
                    vega_mag_ax = twiny ax1;
                    vega_mag_ax = set_xlim vega_mag_ax x_min x_max;
                    vega_color_ax = set_ylim vega_color_ax y_min y_max;
                    x_label = replace ''sloan_'' [] (red_band c) @ ''  [Vega]'';
                    vega_mag_ax = set_xlabel vega_mag_ax x_label;
                    vega_mag_ax = set_xlabel_position vega_mag_ax ''top'';
                    vega_mag_ax = tick_top vega_mag_ax;
                    y_label = blue_band c @ '' - '' @ red_band c @ ''  [Vega]'';
                    y_label = replace ''sloan_'' [] y_label;
                    vega_color_ax = set_ylabel vega_color_ax y_label;
                    vega_color_ax = set_ylabel_position vega_color_ax ''right'';
                    vega_color_ax = tick_right vega_color_ax
                in Inr (ax1, vega_color_ax, vega_mag_ax))))"

section \<open>Red sequence models\<close>

text \<open>
  \<^verbatim>\<open>min\<close> and \<^verbatim>\<open>max\<close> of a sequence raise ValueError when it is empty.
\<close>

fun py_min :: "real list \<Rightarrow> error + real" where
  "py_min [] = Inl ValueError"
| "py_min (x # xs) = Inr (fold min xs x)"

fun py_max :: "real list \<Rightarrow> error + real" where
  "py_max [] = Inl ValueError"
| "py_max (x # xs) = Inr (fold max xs x)"

text \<open>
  \<^verbatim>\<open>np.arange(start, stop, step)\<close>: the values \<open>start + i * step\<close> for
  \<open>i\<close> below \<open>ceil((stop - start) / step)\<close>, so \<open>stop\<close> itself is not among
  them.
\<close>

definition arange :: "real \<Rightarrow> real \<Rightarrow> real \<Rightarrow> real list" where
  "arange start stop step =
     map (\<lambda>i. start + real i * step) [0..<nat \<lceil>(stop - start) / step\<rceil>]"

record colorbar =
  cb_mappable :: scalar_map
  cb_ax :: "axes list"
  cb_pad :: real
  cb_fraction :: real
  cb_anchor :: "real \<times> real"
  cb_label :: string
  cb_ticks :: "real list option"

record figure =
  colorbars :: "colorbar list"

definition set_label :: "colorbar \<Rightarrow> string \<Rightarrow> colorbar" where
  "set_label cb l = cb\<lparr>cb_label := l\<rparr>"

definition set_ticks :: "colorbar \<Rightarrow> real list \<Rightarrow> colorbar" where
  "set_ticks cb ts = cb\<lparr>cb_ticks := Some ts\<rparr>"

definition add_one_model :: "axes \<Rightarrow> rs_model \<Rightarrow> colour \<Rightarrow> axes" where
  "add_one_model ax m col =
     (let mags = [10, 30];
          colors = map (rs_color m) mags;
          ax1 = plot ax \<lparr>pl_xs = mags, pl_ys = colors, pl_color = col,
                  pl_linewidth = 0.5, pl_zorder = 0\<rparr>
      in scatter ax1 \<lparr>sc_xs = [mag_point m], sc_ys = [color_point m], sc_c = col,
           sc_s = Some 30, sc_linewidth = 0, sc_zorder = Some 0, sc_label = None\<rparr>)"

text \<open>
  The models of one color are a dictionary from redshift to model, kept as the list of
  its items in iteration order; the redshifts are numbers, so \<^verbatim>\<open>float(z)\<close> and
  \<^verbatim>\<open>np.float64\<close> leave them as they are. The loop \<^verbatim>\<open>for z in models\<close> with
  \<^verbatim>\<open>models[z]\<close> in its body visits each item once; that subscript cannot fail.
\<close>

fun add_models :: "axes \<Rightarrow> scalar_map \<Rightarrow> (real \<times> rs_model) list \<Rightarrow> axes" where
  "add_models ax sm [] = ax"
| "add_models ax sm ((z, m) # ms) = add_models (add_one_model ax m (To_rgba sm z)) sm ms"

text \<open>
  \<open>fig\<close> and \<open>ax\<close> are changed in place in the source; the model returns both.
  The axes in \<open>steal_axs\<close> are made smaller by the colorbar, which is geometry that
  the model does not keep. matplotlib needs at least one axes in \<open>steal_axs\<close> to
  place the colorbar and fails inside \<^verbatim>\<open>fig.colorbar\<close> for an empty list; that
  check is matplotlib's own and is not part of the model, so what is said about the
  colorbar is said for a list that is not empty.
\<close>

definition add_all_models ::
  "figure \<Rightarrow> axes \<Rightarrow> axes list \<Rightarrow> cfg \<Rightarrow> (string \<rightharpoonup> (real \<times> rs_model) list)
     \<Rightarrow> error + (figure \<times> axes)" where
  "add_all_models fig ax steal_axs c models =
     (case models (color c) of
        None \<Rightarrow> Inl (KeyError (color c))
      | Some ms \<Rightarrow>
          (case py_min (map fst ms) of
             Inl e \<Rightarrow> Inl e
           | Inr lo \<Rightarrow>
               (case py_max (map fst ms) of
                  Inl e \<Rightarrow> Inl e
                | Inr hi \<Rightarrow>
                    (let sm = \<lparr>vmin = lo, vmax = hi, cmap = ''RdYlBu_r''\<rparr>;
                         ax1 = add_models ax sm ms;
                         cb = \<lparr>cb_mappable = sm, cb_ax = steal_axs, cb_pad = 0.15,
                                cb_fraction = 0.05, cb_anchor = (1.0, 1.0),
                                cb_label = [], cb_ticks = None\<rparr>;
                         cb = set_label cb ''Redshift'';
                         cb = set_ticks cb (arange 0 3 0.1)
                     in Inr (fig\<lparr>colorbars := colorbars fig @ [cb]\<rparr>, ax1)))))"

section \<open>The redshift label\<close>















section \<open>The location plot\<close>

record buckets =
  rs_member_ra :: "real list"
  rs_member_dec :: "real list"
  center_ra :: "real list"
  center_dec :: "real list"
  rest_ra :: "real list"
  rest_dec :: "real list"

definition no_buckets :: buckets where
  "no_buckets = \<lparr>rs_member_ra = [], rs_member_dec = [], center_ra = [], center_dec = [],
     rest_ra = [], rest_dec = []\<rparr>"

text \<open>
  The loop over the sources. The subscript \<^verbatim>\<open>source.RS_member[color]\<close> is not
  inside a \<^verbatim>\<open>try\<close> here, so a source without the key raises KeyError.
\<close>

fun sort_sources :: "string \<Rightarrow> buckets \<Rightarrow> source list \<Rightarrow> error + buckets" where
  "sort_sources col b [] = Inr b"
| "sort_sources col b (s # ss) =
     (case RS_member s col of
        None \<Rightarrow> Inl (KeyError col)
      | Some m \<Rightarrow>
          (if m then
             sort_sources col
               (b\<lparr>rs_member_ra := rs_member_ra b @ [ra s],
                  rs_member_dec := rs_member_dec b @ [dec s]\<rparr>) ss
           else if near_center s then
             sort_sources col
               (b\<lparr>center_ra := center_ra b @ [ra s],
                  center_dec := center_dec b @ [dec s]\<rparr>) ss
           else
             sort_sources col
               (b\<lparr>rest_ra := rest_ra b @ [ra s],
                  rest_dec := rest_dec b @ [dec s]\<rparr>) ss))"

definition set_legend :: "axes \<Rightarrow> nat \<Rightarrow> nat \<Rightarrow> axes" where
  "set_legend ax loc sp =
     ax\<lparr>legend := Some \<lparr>lg_loc = loc, lg_scatterpoints = sp, lg_frame_linewidth = None\<rparr>\<rparr>"

definition set_legend_frame_linewidth :: "axes \<Rightarrow> real \<Rightarrow> axes" where
  "set_legend_frame_linewidth ax w =
     ax\<lparr>legend := map_option (\<lambda>l. l\<lparr>lg_frame_linewidth := Some w\<rparr>) (legend ax)\<rparr>"

definition set_useOffset :: "axes \<Rightarrow> bool \<Rightarrow> bool \<Rightarrow> axes" where
  "set_useOffset ax ux uy = ax\<lparr>x_useOffset := ux, y_useOffset := uy\<rparr>"

definition invert_xaxis :: "axes \<Rightarrow> axes" where
  "invert_xaxis ax = ax\<lparr>x_inverted := \<not> x_inverted ax\<rparr>"

definition set_aspect :: "axes \<Rightarrow> real \<Rightarrow> string \<Rightarrow> axes" where
  "set_aspect ax a adj = ax\<lparr>aspect := Some a, adjustable := adj\<rparr>"

text \<open>
  \<open>CHR 0x0A\<close> is the newline of the legend label. The three scatter layers are drawn
  before the middle declination is computed, but an exception leaves the caller
  without a result, so the model returns the error alone. The cosine is that of the
  real numbers: it is zero for a middle declination of 90 degrees, where numpy has a
  tiny number instead and HOL's division gives 0.
\<close>

definition location :: "cluster \<Rightarrow> axes \<Rightarrow> string \<Rightarrow> error + axes" where
  "location cl ax col =
     (case sort_sources col no_buckets (sources_list cl) of
        Inl e \<Rightarrow> Inl e
      | Inr b \<Rightarrow>
          (let ax1 = scatter ax \<lparr>sc_xs = rest_ra b, sc_ys = rest_dec b, sc_c = Named ''0.8'',
                       sc_s = None, sc_linewidth = 0.15, sc_zorder = None, sc_label = None\<rparr>;
               ax2 = scatter ax1 \<lparr>sc_xs = center_ra b, sc_ys = center_dec b,
                       sc_c = Named ''0.2'', sc_s = None, sc_linewidth = 0.15,
                       sc_zorder = None, sc_label = Some ''Location Cut''\<rparr>;
               rs_label = ''Red Sequence'' @ [CHR 0x0A] @ replace ''sloan_'' [] col
                          @ '' Selected'';
               ax3 = scatter ax2 \<lparr>sc_xs = rs_member_ra b, sc_ys = rs_member_dec b,
                       sc_c = Named ''#D62728'', sc_s = None, sc_linewidth = 0.15,
                       sc_zorder = None, sc_label = Some rs_label\<rparr>;
               ax4 = set_ylabel (set_xlabel ax3 ''Right Ascension'') ''Declination'';
               ax5 = set_legend_frame_linewidth (set_legend ax4 4 1) 0;
               ax6 = set_useOffset ax5 False False;
               ax7 = text_ax ax6 \<lparr>tx_x = 0.02, tx_y = 0.96,
                       tx_s = replace ''_'' '' '' (name cl),
                       tx_ha = ''left'', tx_va = ''center'',
                       tx_facecolor = ''w'', tx_box_linewidth = 0\<rparr>;
               ax8 = invert_xaxis ax7;
               all_decs = rs_member_dec b @ center_dec b @ rest_dec b
           in case py_min all_decs of
                Inl e \<Rightarrow> Inl e
              | Inr lo \<Rightarrow>
                  (case py_max all_decs of
                     Inl e \<Rightarrow> Inl e
                   | Inr hi \<Rightarrow>
                       (let middle_dec = (lo + hi) / 2.0
                        in Inr (set_aspect ax8 (1.0 / cos \<bar>middle_dec * pi / 180.0\<bar>)
                                  ''datalim'')))))"

section \<open>Example inputs\<close>

text \<open>
  A configuration for the color r-z and a few sources: a red sequence member near the
  center, a source near the center whose color error is too large, a member that is
  not near the center, and a source whose membership has not been computed.
\<close>

definition ex_cfg :: cfg where
  "ex_cfg = \<lparr>color = ''r-z'', red_band = ''z'', blue_band = ''r'',
     plot_lims = (18, 26, -1, 3)\<rparr>"

definition ex_member :: source where
  "ex_member = \<lparr>ra = 150.1, dec = -10,
     mags = [''z'' \<mapsto> \<lparr>data_value = 21, data_error = 0.02\<rparr>,
             ''r'' \<mapsto> \<lparr>data_value = 22.1, data_error = 0.04\<rparr>],
     colors = [''r-z'' \<mapsto> \<lparr>data_value = 1.1, data_error = 0.05\<rparr>],
     near_center = True, RS_member = [''r-z'' \<mapsto> True]\<rparr>"

definition ex_noisy :: source where
  "ex_noisy = \<lparr>ra = 150.2, dec = 2,
     mags = [''z'' \<mapsto> \<lparr>data_value = 24, data_error = 0.2\<rparr>],
     colors = [''r-z'' \<mapsto> \<lparr>data_value = 0.4, data_error = 0.3\<rparr>],
     near_center = True, RS_member = [''r-z'' \<mapsto> False]\<rparr>"

definition ex_outer :: source where
  "ex_outer = \<lparr>ra = 150.9, dec = 10,
     mags = [''z'' \<mapsto> \<lparr>data_value = 22, data_error = 0.03\<rparr>],
     colors = [''r-z'' \<mapsto> \<lparr>data_value = 1.2, data_error = 0.04\<rparr>],
     near_center = False, RS_member = [''r-z'' \<mapsto> True]\<rparr>"

definition ex_unset :: source where
  "ex_unset = \<lparr>ra = 150.3, dec = 1,
     mags = [''z'' \<mapsto> \<lparr>data_value = 23, data_error = 0.05\<rparr>],
     colors = [''r-z'' \<mapsto> \<lparr>data_value = 0.9, data_error = 0.1\<rparr>],
     near_center = True, RS_member = Map.empty\<rparr>"

definition ex_cluster :: cluster where
  "ex_cluster = \<lparr>name = ''my_cluster'', sources_list = [ex_member, ex_noisy, ex_outer]\<rparr>"

definition ex_cluster_unset :: cluster where
  "ex_cluster_unset = \<lparr>name = ''my_cluster'', sources_list = [ex_unset]\<rparr>"

definition ex_cluster_partly_set :: cluster where
  "ex_cluster_partly_set = \<lparr>name = ''my_cluster'', sources_list = [ex_member, ex_unset]\<rparr>"

definition ex_cluster_pair :: cluster where
  "ex_cluster_pair = \<lparr>name = ''my_cluster'', sources_list = [ex_member, ex_outer]\<rparr>"

definition ex_cluster_empty :: cluster where
  "ex_cluster_empty = \<lparr>name = ''my_cluster'', sources_list = []\<rparr>"

definition ex_ab_to_vega :: "string \<rightharpoonup> real" where
  "ex_ab_to_vega = [''r'' \<mapsto> - 0.16, ''z'' \<mapsto> - 0.52]"

definition ex_model :: "real \<Rightarrow> rs_model" where
  "ex_model z = \<lparr>rs_color = (\<lambda>mag. z - 0.05 * (mag - 20)), mag_point = 20,
     color_point = z\<rparr>"

definition ex_models :: "string \<rightharpoonup> (real \<times> rs_model) list" where
  "ex_models = [''r-z'' \<mapsto> [(0.5, ex_model 0.5), (0.1, ex_model 0.1), (0.9, ex_model 0.9)]]"

definition ex_figure :: figure where
  "ex_figure = \<lparr>colorbars = []\<rparr>"

section \<open>Properties of the color-magnitude diagram\<close>

lemmas ex_defs = ex_cfg_def ex_member_def ex_noisy_def ex_outer_def ex_unset_def ex_cluster_def
  ex_cluster_unset_def ex_cluster_partly_set_def ex_cluster_empty_def ex_cluster_pair_def

text \<open>
  When every source near the center carries the active color, the comprehension keeps
  the sources that are near the center with a color error below 0.2, in their order.
\<close>

lemma valid_sources_filter:
  assumes "\<forall>s \<in> set ss. near_center s \<longrightarrow> color c \<in> dom (colors s)"
  shows "valid_sources c ss =
    Inr (filter (\<lambda>s. near_center s \<and> data_error (the (colors s (color c))) < 0.2) ss)"
  using assms by (induction ss) (auto split: option.splits)

text \<open>
  The loop draws one error bar for each source it is given, after those already on the
  axes; the labels and limits that follow leave the error bars alone.
\<close>

lemma plot_points_errorbars:
  assumes "\<forall>s \<in> set vs. red_band c \<in> dom (mags s) \<and> color c \<in> dom (colors s)"
  shows "plot_points c ax vs =
    Inr (ax\<lparr>errorbars := errorbars ax @
      map (\<lambda>s. \<lparr>eb_x = data_value (the (mags s (red_band c))),
                eb_y = data_value (the (colors s (color c))),
                eb_yerr = Some (data_error (the (colors s (color c)))),
                eb_xerr = None, eb_c = Named (point_color c s), eb_fmt = ''.'',
                eb_elinewidth = 0.35, eb_capsize = 0, eb_markersize = 5\<rparr>) vs\<rparr>)"
  using assms
proof (induction vs arbitrary: ax)
  case Nil
  then show ?case by simp
next
  case (Cons s vs)
  from Cons.prems obtain m col where m: "mags s (red_band c) = Some m"
    and col: "colors s (color c) = Some col" by auto
  from Cons.prems have rest: "\<forall>s \<in> set vs. red_band c \<in> dom (mags s) \<and> color c \<in> dom (colors s)"
    by simp
  show ?case
    by (simp add: m col Cons.IH [OF rest] errorbar_def)
qed

lemma cmd_errorbars:
  assumes "valid_sources c (sources_list cl) = Inr vs"
    and "plot_points c ax vs = Inr ax1"
  shows "\<exists>ax'. cmd cl ax c = Inr ax' \<and> errorbars ax' = errorbars ax1"
  using assms
  by (simp add: cmd_def Let_def set_xlim_def set_ylim_def set_xlabel_def set_ylabel_def text_ax_def)

lemma cmd_result:
  assumes "\<forall>s \<in> set (sources_list cl). near_center s \<longrightarrow>
             color c \<in> dom (colors s) \<and>
             (data_error (the (colors s (color c))) < 0.2 \<longrightarrow> red_band c \<in> dom (mags s))"
  shows "\<exists>ax'. cmd cl ax c = Inr ax' \<and>
           errorbars ax' = errorbars ax @
             map (\<lambda>s. \<lparr>eb_x = data_value (the (mags s (red_band c))),
                       eb_y = data_value (the (colors s (color c))),
                       eb_yerr = Some (data_error (the (colors s (color c)))),
                       eb_xerr = None, eb_c = Named (point_color c s), eb_fmt = ''.'',
                       eb_elinewidth = 0.35, eb_capsize = 0, eb_markersize = 5\<rparr>)
               (filter (\<lambda>s. near_center s \<and> data_error (the (colors s (color c))) < 0.2)
                  (sources_list cl))"
proof -
  let ?vs = "filter (\<lambda>s. near_center s \<and> data_error (the (colors s (color c))) < 0.2)
                  (sources_list cl)"
  have v: "valid_sources c (sources_list cl) = Inr ?vs"
    using assms by (intro valid_sources_filter) blast
  have "\<forall>s \<in> set ?vs. red_band c \<in> dom (mags s) \<and> color c \<in> dom (colors s)"
    using assms by auto
  from plot_points_errorbars [OF this, of ax] cmd_errorbars [OF v]
  show ?thesis by fastforce
qed

text \<open>
  Claim C1. For every source of the cluster, the color-magnitude diagram draws the
  source if and only if it is near the center and the error of its active color is
  strictly below 0.2: the error bars added to the axes are those of the sources that
  pass this test, one each and in order, so a source that is not near the center or has
  a color error of 0.2 or more is left out. The sources are assumed to carry the keys
  the code looks up: the active color for a source near the center, and the red band
  for a source that is drawn.
\<close>

theorem cmd_draws_valid_sources:
  assumes "\<forall>s \<in> set (sources_list cl). near_center s \<longrightarrow>
             color c \<in> dom (colors s) \<and>
             (data_error (the (colors s (color c))) < 0.2 \<longrightarrow> red_band c \<in> dom (mags s))"
  shows "\<exists>ax'. cmd cl ax c = Inr ax' \<and>
           errorbars ax' = errorbars ax @
             map (\<lambda>s. \<lparr>eb_x = data_value (the (mags s (red_band c))),
                       eb_y = data_value (the (colors s (color c))),
                       eb_yerr = Some (data_error (the (colors s (color c)))),
                       eb_xerr = None, eb_c = Named (point_color c s), eb_fmt = ''.'',
                       eb_elinewidth = 0.35, eb_capsize = 0, eb_markersize = 5\<rparr>)
               (filter (\<lambda>s. near_center s \<and> data_error (the (colors s (color c))) < 0.2)
                  (sources_list cl))"
  using assms by (rule cmd_result)

lemma ex_cluster_keys:
  "\<forall>s \<in> set (sources_list ex_cluster). near_center s \<longrightarrow>
      color ex_cfg \<in> dom (colors s) \<and>
      (data_error (the (colors s (color ex_cfg))) < 0.2 \<longrightarrow> red_band ex_cfg \<in> dom (mags s))"
  by (simp add: ex_defs)

theorem cmd_draws_valid_sources_witness:
  "map near_center (sources_list ex_cluster) = [True, True, False] \<and>
   map (\<lambda>s. map_option data_error (colors s (color ex_cfg))) (sources_list ex_cluster) =
     [Some 0.05, Some 0.3, Some 0.04] \<and>
   (\<exists>ax'. cmd ex_cluster new_axes ex_cfg = Inr ax' \<and>
      errorbars ax' =
        [\<lparr>eb_x = 21, eb_y = 1.1, eb_yerr = Some 0.05, eb_xerr = None,
          eb_c = Named ''#D62728'', eb_fmt = ''.'', eb_elinewidth = 0.35, eb_capsize = 0,
          eb_markersize = 5\<rparr>])"
  using cmd_draws_valid_sources [OF ex_cluster_keys, of new_axes]
  by (simp add: ex_defs new_axes_def point_color_def nice_red_def)

text \<open>
  Claim C10. For every source the color-magnitude diagram draws, the x coordinate of
  the point is the value of the source's magnitude in the red band of the
  configuration, the vertical error bar has the size of the error of the active color,
  and there is no horizontal error bar.
\<close>

theorem cmd_point_coordinates:
  assumes "\<forall>s \<in> set (sources_list cl). near_center s \<longrightarrow>
             color c \<in> dom (colors s) \<and>
             (data_error (the (colors s (color c))) < 0.2 \<longrightarrow> red_band c \<in> dom (mags s))"
  shows "\<exists>ax'. cmd cl ax c = Inr ax' \<and>
           map eb_x (drop (length (errorbars ax)) (errorbars ax')) =
             map (\<lambda>s. data_value (the (mags s (red_band c))))
               (filter (\<lambda>s. near_center s \<and> data_error (the (colors s (color c))) < 0.2)
                  (sources_list cl)) \<and>
           map eb_yerr (drop (length (errorbars ax)) (errorbars ax')) =
             map (\<lambda>s. Some (data_error (the (colors s (color c)))))
               (filter (\<lambda>s. near_center s \<and> data_error (the (colors s (color c))) < 0.2)
                  (sources_list cl)) \<and>
           (\<forall>e \<in> set (drop (length (errorbars ax)) (errorbars ax')). eb_xerr e = None)"
proof -
  from cmd_result [OF assms, of ax] obtain ax' where r: "cmd cl ax c = Inr ax'"
    and e: "errorbars ax' = errorbars ax @
             map (\<lambda>s. \<lparr>eb_x = data_value (the (mags s (red_band c))),
                       eb_y = data_value (the (colors s (color c))),
                       eb_yerr = Some (data_error (the (colors s (color c)))),
                       eb_xerr = None, eb_c = Named (point_color c s), eb_fmt = ''.'',
                       eb_elinewidth = 0.35, eb_capsize = 0, eb_markersize = 5\<rparr>)
               (filter (\<lambda>s. near_center s \<and> data_error (the (colors s (color c))) < 0.2)
                  (sources_list cl))"
    by blast
  show ?thesis
    by (intro exI [of _ ax']) (simp add: r e comp_def)
qed

theorem cmd_point_coordinates_witness:
  "map_option data_value (mags ex_member (red_band ex_cfg)) = Some 21 \<and>
   map_option data_value (mags ex_member (blue_band ex_cfg)) = Some 22.1 \<and>
   (\<exists>ax'. cmd ex_cluster new_axes ex_cfg = Inr ax' \<and>
      map eb_x (errorbars ax') = [21] \<and> map eb_yerr (errorbars ax') = [Some 0.05] \<and>
      (\<forall>e \<in> set (errorbars ax'). eb_xerr e = None))"
  using cmd_point_coordinates [OF ex_cluster_keys, of new_axes]
  by (simp add: ex_defs new_axes_def)

section \<open>Properties of the location plot\<close>

text \<open>
  The \<^verbatim>\<open>except KeyError\<close> branch of the color-magnitude diagram: a source without
  a membership entry for the active color is drawn black.
\<close>

lemma point_color_unset: "RS_member s (color c) = None \<Longrightarrow> point_color c s = ''k''"
  by (simp add: point_color_def)

text \<open>
  Claim C2. A source whose membership dictionary has no entry for the active color is
  to be treated as not a member by both plots, without an error. The color-magnitude
  diagram does so and draws the source black; the location plot raises KeyError, since
  its subscript is not guarded. The cluster here holds one such source.
\<close>

theorem location_unset_membership_raises:
  "location ex_cluster_unset new_axes ''r-z'' = Inl (KeyError ''r-z'') \<and>
   map_sum id (map eb_c \<circ> errorbars) (cmd ex_cluster_unset new_axes ex_cfg) =
     Inr [Named ''k'']"
  by (simp add: location_def cmd_def ex_defs new_axes_def errorbar_def point_color_def
     set_xlim_def set_ylim_def set_xlabel_def set_ylabel_def text_ax_def Let_def)

text \<open>
  Claim C3. Every source is to fall into exactly one category of the color-magnitude
  diagram and exactly one bucket of the location plot. For a cluster with a member and
  a source whose membership has not been computed, the color-magnitude diagram puts the
  first in the member category (red) and the second in the non-member category
  (black), but the location plot raises KeyError and puts the second source in no
  bucket.
\<close>

theorem location_partly_set_raises:
  "location ex_cluster_partly_set new_axes ''r-z'' = Inl (KeyError ''r-z'') \<and>
   map_sum id (map eb_c \<circ> errorbars) (cmd ex_cluster_partly_set new_axes ex_cfg) =
     Inr [Named ''#D62728'', Named ''k'']"
  by (simp add: location_def cmd_def ex_defs new_axes_def errorbar_def point_color_def
     nice_red_def set_xlim_def set_ylim_def set_xlabel_def set_ylabel_def text_ax_def Let_def)

text \<open>
  \<^verbatim>\<open>min\<close> and \<^verbatim>\<open>max\<close> of a sequence that is not empty are the least and the
  greatest of its elements.
\<close>

lemma py_min_Min: "xs \<noteq> [] \<Longrightarrow> py_min xs = Inr (Min (set xs))"
proof (cases xs)
  case (Cons a list)
  then show ?thesis using Min.set_eq_fold [of a list] by simp
qed simp

lemma py_max_Max: "xs \<noteq> [] \<Longrightarrow> py_max xs = Inr (Max (set xs))"
proof (cases xs)
  case (Cons a list)
  then show ?thesis using Max.set_eq_fold [of a list] by simp
qed simp

text \<open>
  When every source has a membership entry for the color, the loop of the location
  plot sorts the sources into three buckets: the members, the others near the center,
  and the rest. A member goes to the first bucket whether or not it is near the center.
\<close>

lemma sort_sources_filter:
  assumes "\<forall>s \<in> set ss. col \<in> dom (RS_member s)"
  shows "sort_sources col b ss = Inr
    \<lparr>rs_member_ra = rs_member_ra b @ map ra (filter (\<lambda>s. RS_member s col = Some True) ss),
     rs_member_dec = rs_member_dec b @ map dec (filter (\<lambda>s. RS_member s col = Some True) ss),
     center_ra = center_ra b @
       map ra (filter (\<lambda>s. RS_member s col \<noteq> Some True \<and> near_center s) ss),
     center_dec = center_dec b @
       map dec (filter (\<lambda>s. RS_member s col \<noteq> Some True \<and> near_center s) ss),
     rest_ra = rest_ra b @
       map ra (filter (\<lambda>s. RS_member s col \<noteq> Some True \<and> \<not> near_center s) ss),
     rest_dec = rest_dec b @
       map dec (filter (\<lambda>s. RS_member s col \<noteq> Some True \<and> \<not> near_center s) ss)\<rparr>"
  using assms
proof (induction ss arbitrary: b)
  case Nil
  then show ?case by simp
next
  case (Cons s ss)
  from Cons.prems obtain m where m: "RS_member s col = Some m" by auto
  from Cons.prems have rest: "\<forall>s \<in> set ss. col \<in> dom (RS_member s)" by simp
  show ?case
    by (cases m) (simp_all add: m Cons.IH [OF rest])
qed

lemma three_way_set:
  "set (map f (filter (\<lambda>s. P s) ss) @ map f (filter (\<lambda>s. \<not> P s \<and> Q s) ss)
        @ map f (filter (\<lambda>s. \<not> P s \<and> \<not> Q s) ss)) = f ` set ss"
  by auto

lemma location_result:
  assumes ne: "sources_list cl \<noteq> []"
    and keys: "\<forall>s \<in> set (sources_list cl). col \<in> dom (RS_member s)"
  shows "\<exists>ax'. location cl ax col = Inr ax' \<and>
     scatters ax' = scatters ax @
       [\<lparr>sc_xs = map ra (filter (\<lambda>s. RS_member s col \<noteq> Some True \<and> \<not> near_center s) (sources_list cl)),
         sc_ys = map dec (filter (\<lambda>s. RS_member s col \<noteq> Some True \<and> \<not> near_center s) (sources_list cl)),
         sc_c = Named ''0.8'', sc_s = None, sc_linewidth = 0.15, sc_zorder = None,
         sc_label = None\<rparr>,
        \<lparr>sc_xs = map ra (filter (\<lambda>s. RS_member s col \<noteq> Some True \<and> near_center s) (sources_list cl)),
         sc_ys = map dec (filter (\<lambda>s. RS_member s col \<noteq> Some True \<and> near_center s) (sources_list cl)),
         sc_c = Named ''0.2'', sc_s = None, sc_linewidth = 0.15, sc_zorder = None,
         sc_label = Some ''Location Cut''\<rparr>,
        \<lparr>sc_xs = map ra (filter (\<lambda>s. RS_member s col = Some True) (sources_list cl)),
         sc_ys = map dec (filter (\<lambda>s. RS_member s col = Some True) (sources_list cl)),
         sc_c = Named ''#D62728'', sc_s = None, sc_linewidth = 0.15, sc_zorder = None,
         sc_label = Some (''Red Sequence'' @ [CHR 0x0A] @ replace ''sloan_'' [] col
                          @ '' Selected'')\<rparr>] \<and>
     aspect ax' = Some (1 / cos \<bar>(Min (dec ` set (sources_list cl))
                                  + Max (dec ` set (sources_list cl))) / 2 * pi / 180\<bar>)"
proof -
  let ?ss = "sources_list cl"
  let ?all = "map dec (filter (\<lambda>s. RS_member s col = Some True) ?ss)
     @ map dec (filter (\<lambda>s. RS_member s col \<noteq> Some True \<and> near_center s) ?ss)
     @ map dec (filter (\<lambda>s. RS_member s col \<noteq> Some True \<and> \<not> near_center s) ?ss)"
  have set_all: "set ?all = dec ` set ?ss"
    by (rule three_way_set)
  with ne have "?all \<noteq> []"
    by (metis empty_is_image set_empty)
  then have mn: "py_min ?all = Inr (Min (dec ` set ?ss))"
    and mx: "py_max ?all = Inr (Max (dec ` set ?ss))"
    using py_min_Min [of ?all] py_max_Max [of ?all] set_all by simp_all
  show ?thesis
    unfolding location_def sort_sources_filter [OF keys] Let_def
    by (simp add: no_buckets_def mn mx scatter_def set_xlabel_def set_ylabel_def set_legend_def
        set_legend_frame_linewidth_def set_useOffset_def text_ax_def invert_xaxis_def
        set_aspect_def del: set_append map_append)
qed

text \<open>
  The three scatter layers, in drawing order: light gray for the rest, dark gray for
  the non-members near the center, red for the members. Each source with a membership
  entry is in exactly one of them, since the three tests exclude each other and one
  of them holds.
\<close>

lemma location_buckets:
  assumes "sources_list cl \<noteq> []"
    and "\<forall>s \<in> set (sources_list cl). col \<in> dom (RS_member s)"
  shows "\<exists>ax'. location cl ax col = Inr ax' \<and>
     map (\<lambda>l. (sc_c l, sc_xs l, sc_ys l)) (drop (length (scatters ax)) (scatters ax')) =
       [(Named ''0.8'',
         map ra (filter (\<lambda>s. RS_member s col \<noteq> Some True \<and> \<not> near_center s) (sources_list cl)),
         map dec (filter (\<lambda>s. RS_member s col \<noteq> Some True \<and> \<not> near_center s) (sources_list cl))),
        (Named ''0.2'',
         map ra (filter (\<lambda>s. RS_member s col \<noteq> Some True \<and> near_center s) (sources_list cl)),
         map dec (filter (\<lambda>s. RS_member s col \<noteq> Some True \<and> near_center s) (sources_list cl))),
        (Named ''#D62728'',
         map ra (filter (\<lambda>s. RS_member s col = Some True) (sources_list cl)),
         map dec (filter (\<lambda>s. RS_member s col = Some True) (sources_list cl)))]"
  using location_result [OF assms, of ax] by fastforce

text \<open>
  Claim C7. The aspect of the location plot is the reciprocal of the cosine of the
  middle declination, which is half the sum of the least and the greatest declination
  over the three scatter layers together (they hold the declinations of all sources),
  taken from degrees to radians. For the declinations -10 and 10 the middle is 0 and
  the aspect is 1. The cluster is assumed to have a source, and every source a
  membership entry for the color.
\<close>

theorem location_aspect:
  assumes "sources_list cl \<noteq> []"
    and "\<forall>s \<in> set (sources_list cl). col \<in> dom (RS_member s)"
  shows "\<exists>ax'. location cl ax col = Inr ax' \<and>
           set (concat (map sc_ys (drop (length (scatters ax)) (scatters ax')))) =
             dec ` set (sources_list cl) \<and>
           aspect ax' = Some (1 / cos ((Min (dec ` set (sources_list cl))
                                        + Max (dec ` set (sources_list cl))) / 2 * pi / 180))"
proof -
  from location_result [OF assms, of ax] obtain ax' where r: "location cl ax col = Inr ax'"
    and s: "map sc_ys (drop (length (scatters ax)) (scatters ax')) =
       [map dec (filter (\<lambda>s. RS_member s col \<noteq> Some True \<and> \<not> near_center s) (sources_list cl)),
        map dec (filter (\<lambda>s. RS_member s col \<noteq> Some True \<and> near_center s) (sources_list cl)),
        map dec (filter (\<lambda>s. RS_member s col = Some True) (sources_list cl))]"
    and a: "aspect ax' = Some (1 / cos \<bar>(Min (dec ` set (sources_list cl))
                                  + Max (dec ` set (sources_list cl))) / 2 * pi / 180\<bar>)"
    by fastforce
  have p: "set (concat (map sc_ys (drop (length (scatters ax)) (scatters ax')))) =
      dec ` set (sources_list cl)"
    unfolding s by auto
  have a': "aspect ax' = Some (1 / cos ((Min (dec ` set (sources_list cl))
                                  + Max (dec ` set (sources_list cl))) / 2 * pi / 180))"
    using a unfolding cos_abs_real .
  from r p a' show ?thesis
    by blast
qed

theorem location_aspect_witness:
  "sources_list ex_cluster_pair \<noteq> [] \<and>
   map (\<lambda>s. RS_member s ''r-z'') (sources_list ex_cluster_pair) = [Some True, Some True] \<and>
   dec ` set (sources_list ex_cluster_pair) = {- 10, 10} \<and>
   (\<exists>ax'. location ex_cluster_pair new_axes ''r-z'' = Inr ax' \<and> aspect ax' = Some 1)"
proof -
  have ne: "sources_list ex_cluster_pair \<noteq> []"
    and k: "\<forall>s \<in> set (sources_list ex_cluster_pair). ''r-z'' \<in> dom (RS_member s)"
    and d: "dec ` set (sources_list ex_cluster_pair) = {- 10, 10}"
    by (simp_all add: ex_defs)
  have m: "map (\<lambda>s. RS_member s ''r-z'') (sources_list ex_cluster_pair) = [Some True, Some True]"
    by (simp add: ex_defs)
  from location_aspect [OF ne k, of new_axes] ne m d show ?thesis
    by auto
qed

text \<open>
  Claim C8. For a cluster without sources the location plot does not set an aspect:
  \<^verbatim>\<open>min\<close> of the empty list of declinations raises ValueError, the exception
  Python has for an empty sequence.
\<close>

theorem location_empty_cluster:
  "sources_list cl = [] \<Longrightarrow> location cl ax col = Inl ValueError"
  by (simp add: location_def Let_def no_buckets_def)

theorem location_empty_cluster_witness:
  "sources_list ex_cluster_empty = [] \<and> location ex_cluster_empty new_axes ''r-z'' = Inl ValueError"
  using location_empty_cluster [of ex_cluster_empty new_axes "''r-z''"]
  by (simp add: ex_cluster_empty_def)

section \<open>Properties of the Vega labels\<close>

text \<open>
  Claim C4. The x range of the Vega magnitude axis is the lower x limit plus the offset
  of the blue band and the upper x limit plus the offset of the red band; the y range
  of the Vega color axis is both y limits plus the same number, the offset of the blue
  band minus that of the red band. What is drawn on the first axes and its limits stay
  as they were, and nothing is drawn on the two new axes. Both bands are assumed to be
  in the offset table.
\<close>

theorem vega_limits:
  assumes "ab_to_vega (blue_band c) = Some blue" and "ab_to_vega (red_band c) = Some red"
    and "plot_lims c = (x0, x1, y0, y1)"
  shows "\<exists>ax' vega_color_ax vega_mag_ax.
           add_vega_labels ab_to_vega ax c = Inr (ax', vega_color_ax, vega_mag_ax) \<and>
           xlim vega_mag_ax = Some (x0 + blue, x1 + red) \<and>
           ylim vega_color_ax = Some (y0 + (blue - red), y1 + (blue - red)) \<and>
           errorbars ax' = errorbars ax \<and> plots ax' = plots ax \<and>
           scatters ax' = scatters ax \<and> xlim ax' = xlim ax \<and> ylim ax' = ylim ax \<and>
           errorbars vega_mag_ax = [] \<and> plots vega_mag_ax = [] \<and> scatters vega_mag_ax = [] \<and>
           errorbars vega_color_ax = [] \<and> plots vega_color_ax = [] \<and>
           scatters vega_color_ax = []"
  using assms
  by (simp add: add_vega_labels_def Let_def tick_left_def tick_bottom_def tick_top_def
      tick_right_def twinx_def twiny_def new_axes_def set_xlim_def set_ylim_def set_xlabel_def
      set_ylabel_def set_xlabel_position_def set_ylabel_position_def)

theorem vega_limits_witness:
  "ex_ab_to_vega (blue_band ex_cfg) = Some (- 0.16) \<and>
   ex_ab_to_vega (red_band ex_cfg) = Some (- 0.52) \<and>
   plot_lims ex_cfg = (18, 26, - 1, 3) \<and>
   (\<exists>ax' vega_color_ax vega_mag_ax.
      add_vega_labels ex_ab_to_vega new_axes ex_cfg = Inr (ax', vega_color_ax, vega_mag_ax) \<and>
      xlim vega_mag_ax = Some (17.84, 25.48) \<and>
      ylim vega_color_ax = Some (- 0.64, 3.36))"
proof -
  have b: "ex_ab_to_vega (blue_band ex_cfg) = Some (- 0.16)"
    and r: "ex_ab_to_vega (red_band ex_cfg) = Some (- 0.52)"
    and l: "plot_lims ex_cfg = (18, 26, - 1, 3)"
    by (simp_all add: ex_ab_to_vega_def ex_cfg_def)
  from vega_limits [where ab_to_vega = ex_ab_to_vega and c = ex_cfg, OF b r l, of new_axes] b r l show ?thesis
    by auto
qed

section \<open>Properties of the model overlay\<close>

lemma add_models_plots:
  "plots (add_models ax sm ms) = plots ax @
     map (\<lambda>(z, m). \<lparr>pl_xs = [10, 30], pl_ys = [rs_color m 10, rs_color m 30],
            pl_color = To_rgba sm z, pl_linewidth = 0.5, pl_zorder = 0\<rparr>) ms"
  by (induction ax sm ms rule: add_models.induct)
     (simp_all add: add_one_model_def plot_def scatter_def Let_def)

lemma add_models_scatters:
  "scatters (add_models ax sm ms) = scatters ax @
     map (\<lambda>(z, m). \<lparr>sc_xs = [mag_point m], sc_ys = [color_point m], sc_c = To_rgba sm z,
            sc_s = Some 30, sc_linewidth = 0, sc_zorder = Some 0, sc_label = None\<rparr>) ms"
  by (induction ax sm ms rule: add_models.induct)
     (simp_all add: add_one_model_def plot_def scatter_def Let_def)
lemma arange_ticks: "arange 0 3 0.1 = map (\<lambda>i. real i / 10) [0..<30]"
  by (simp add: arange_def)

lemma add_all_models_result:
  assumes sub: "models (color c) = Some ms" and ne: "ms \<noteq> []"
  shows "add_all_models fig ax steal_axs c models =
    Inr (fig\<lparr>colorbars := colorbars fig @
           [\<lparr>cb_mappable = \<lparr>vmin = Min (fst ` set ms), vmax = Max (fst ` set ms),
                             cmap = ''RdYlBu_r''\<rparr>,
             cb_ax = steal_axs, cb_pad = 0.15, cb_fraction = 0.05, cb_anchor = (1, 1),
             cb_label = ''Redshift'', cb_ticks = Some (map (\<lambda>i. real i / 10) [0..<30])\<rparr>]\<rparr>,
         add_models ax \<lparr>vmin = Min (fst ` set ms), vmax = Max (fst ` set ms),
                         cmap = ''RdYlBu_r''\<rparr> ms)"
proof -
  from ne have "map fst ms \<noteq> []" by simp
  then have "py_min (map fst ms) = Inr (Min (fst ` set ms))"
    and "py_max (map fst ms) = Inr (Max (fst ` set ms))"
    using py_min_Min [of "map fst ms"] py_max_Max [of "map fst ms"] by simp_all
  then show ?thesis
    by (simp add: add_all_models_def sub Let_def set_label_def set_ticks_def arange_ticks)
qed

text \<open>
  Claim C5, as amended. The scalar map that colors the models has the least and the
  greatest redshift of the models of the active color as its limits, every line drawn
  takes its color from it, and one colorbar is added to the figure, with the label
  Redshift and ticks at the thirty multiples of 0.1 from 0 to 2.9, whatever the
  redshifts are: the ticks are \<^verbatim>\<open>np.arange(0, 3, 0.1)\<close>, which leaves the end 3
  out. The active color is assumed to have at least one model, and the list of axes
  that make room for the colorbar to have at least one axes.
\<close>

theorem model_colorbar:
  assumes "models (color c) = Some ms" and "ms \<noteq> []" and "steal_axs \<noteq> []"
  shows "\<exists>fig' ax' cb. add_all_models fig ax steal_axs c models = Inr (fig', ax') \<and>
           colorbars fig' = colorbars fig @ [cb] \<and>
           vmin (cb_mappable cb) = Min (fst ` set ms) \<and>
           vmax (cb_mappable cb) = Max (fst ` set ms) \<and>
           cb_label cb = ''Redshift'' \<and>
           cb_ticks cb = Some (map (\<lambda>i. real i / 10) [0..<30]) \<and>
           (\<forall>p \<in> set (drop (length (plots ax)) (plots ax')).
              \<exists>z. pl_color p = To_rgba (cb_mappable cb) z)"
  unfolding add_all_models_result [where models = models and c = c and ms = ms, OF assms(1,2)]
  by (auto simp: add_models_plots)

theorem model_colorbar_witness:
  "ex_models (color ex_cfg) = Some [(0.5, ex_model 0.5), (0.1, ex_model 0.1), (0.9, ex_model 0.9)] \<and>
   (\<exists>fig' ax' cb. add_all_models ex_figure new_axes [new_axes] ex_cfg ex_models = Inr (fig', ax') \<and>
      colorbars fig' = [cb] \<and> vmin (cb_mappable cb) = 0.1 \<and> vmax (cb_mappable cb) = 0.9 \<and>
      cb_label cb = ''Redshift'' \<and> cb_ticks cb = Some (map (\<lambda>i. real i / 10) [0..<30]))"
proof -
  have m: "ex_models (color ex_cfg) =
      Some [(0.5, ex_model 0.5), (0.1, ex_model 0.1), (0.9, ex_model 0.9)]"
    by (simp add: ex_models_def ex_cfg_def)
  have ne: "[(0.5, ex_model 0.5), (0.1, ex_model 0.1), (0.9, ex_model 0.9)] \<noteq> []"
    by simp
  have st: "[new_axes] \<noteq> []" by simp
  from model_colorbar [where models = ex_models and c = ex_cfg, OF m ne st, of ex_figure new_axes] m
  show ?thesis
    by (auto simp: ex_figure_def)
qed

text \<open>
  The claim as first stated has the ticks run from 0 to 3. For three models with the
  redshifts 0.5, 0.1 and 0.9 the colorbar has thirty ticks, the last one is 2.9, and
  no tick is at 3.
\<close>

lemma ex_models_result:
  "add_all_models ex_figure new_axes [new_axes] ex_cfg ex_models =
    Inr (ex_figure\<lparr>colorbars := colorbars ex_figure @
           [\<lparr>cb_mappable = \<lparr>vmin = Min (fst ` set [(0.5, ex_model 0.5), (0.1, ex_model 0.1), (0.9, ex_model 0.9)]),
                             vmax = Max (fst ` set [(0.5, ex_model 0.5), (0.1, ex_model 0.1), (0.9, ex_model 0.9)]),
                             cmap = ''RdYlBu_r''\<rparr>,
             cb_ax = [new_axes], cb_pad = 0.15, cb_fraction = 0.05, cb_anchor = (1, 1),
             cb_label = ''Redshift'', cb_ticks = Some (map (\<lambda>i. real i / 10) [0..<30])\<rparr>]\<rparr>,
         add_models new_axes \<lparr>vmin = Min (fst ` set [(0.5, ex_model 0.5), (0.1, ex_model 0.1), (0.9, ex_model 0.9)]),
                               vmax = Max (fst ` set [(0.5, ex_model 0.5), (0.1, ex_model 0.1), (0.9, ex_model 0.9)]),
                         cmap = ''RdYlBu_r''\<rparr> [(0.5, ex_model 0.5), (0.1, ex_model 0.1), (0.9, ex_model 0.9)])"
  by (rule add_all_models_result) (simp_all add: ex_models_def ex_cfg_def)

lemma no_tick_at_3: "filter ((=) 3) (map (\<lambda>i. real i / 10) [0..<30]) = []"
  by (auto simp: filter_empty_conv)

lemma last_tick: "last (map (\<lambda>i. real i / 10) [0..<30]) = 2.9"
  by (simp add: last_map)

theorem colorbar_ticks_stop_before_3:
  "map_sum id (map (map_option length \<circ> cb_ticks) \<circ> colorbars \<circ> fst)
     (add_all_models ex_figure new_axes [new_axes] ex_cfg ex_models) = Inr [Some 30] \<and>
   map_sum id (map (map_option last \<circ> cb_ticks) \<circ> colorbars \<circ> fst)
     (add_all_models ex_figure new_axes [new_axes] ex_cfg ex_models) = Inr [Some 2.9] \<and>
   map_sum id (map (map_option (filter ((=) 3)) \<circ> cb_ticks) \<circ> colorbars \<circ> fst)
     (add_all_models ex_figure new_axes [new_axes] ex_cfg ex_models) = Inr [Some []]"
  unfolding ex_models_result
  by (simp add: ex_figure_def no_tick_at_3 last_tick del: upt_Suc)

text \<open>
  Claim C6. For every redshift of the active color one line is drawn, through the
  model's colors at the magnitudes 10 and 30, and one marker at the model's
  characteristic point; so \<open>n\<close> redshifts give \<open>n\<close> lines and \<open>n\<close>
  markers. The active color is assumed to have at least one model.
\<close>

theorem model_lines:
  assumes "models (color c) = Some ms" and "ms \<noteq> []"
  shows "\<exists>fig' ax'. add_all_models fig ax steal_axs c models = Inr (fig', ax') \<and>
           plots ax' = plots ax @
             map (\<lambda>(z, m). \<lparr>pl_xs = [10, 30], pl_ys = [rs_color m 10, rs_color m 30],
                    pl_color = To_rgba \<lparr>vmin = Min (fst ` set ms), vmax = Max (fst ` set ms),
                                 cmap = ''RdYlBu_r''\<rparr> z,
                    pl_linewidth = 0.5, pl_zorder = 0\<rparr>) ms \<and>
           scatters ax' = scatters ax @
             map (\<lambda>(z, m). \<lparr>sc_xs = [mag_point m], sc_ys = [color_point m],
                    sc_c = To_rgba \<lparr>vmin = Min (fst ` set ms), vmax = Max (fst ` set ms),
                                 cmap = ''RdYlBu_r''\<rparr> z,
                    sc_s = Some 30, sc_linewidth = 0,
                    sc_zorder = Some 0, sc_label = None\<rparr>) ms \<and>
           length (plots ax') = length (plots ax) + length ms \<and>
           length (scatters ax') = length (scatters ax) + length ms"
  unfolding add_all_models_result [where models = models and c = c and ms = ms, OF assms]
  by (simp add: add_models_plots add_models_scatters)
theorem model_lines_witness:
  "ex_models (color ex_cfg) = Some [(0.5, ex_model 0.5), (0.1, ex_model 0.1), (0.9, ex_model 0.9)] \<and>
   (\<exists>fig' ax'. add_all_models ex_figure new_axes [new_axes] ex_cfg ex_models = Inr (fig', ax') \<and>
      map pl_xs (plots ax') = [[10, 30], [10, 30], [10, 30]] \<and>
      map pl_ys (plots ax') = [[1, 0], [0.6, - 0.4], [1.4, 0.4]] \<and>
      length (plots ax') = 3 \<and> length (scatters ax') = 3)"
proof -
  have m: "ex_models (color ex_cfg) =
      Some [(0.5, ex_model 0.5), (0.1, ex_model 0.1), (0.9, ex_model 0.9)]"
    by (simp add: ex_models_def ex_cfg_def)
  have ne: "[(0.5, ex_model 0.5), (0.1, ex_model 0.1), (0.9, ex_model 0.9)] \<noteq> []"
    by simp
  from model_lines [where models = ex_models and c = ex_cfg, OF m ne, of ex_figure new_axes
      "[new_axes]"] m
  show ?thesis
    by (auto simp: new_axes_def ex_model_def)
qed

section \<open>Properties of the redshift label\<close>





























end
